theory Spec2Isabelle
  imports Main
begin

section \<open>JavaScript values\<close>

text \<open>
  The manager of \<^verbatim>\<open>src/lib/KeyEventManager.js\<close> handles its arguments as untyped
  JavaScript values: it compares them with \<^verbatim>\<open>===\<close>, tests them for truthiness and
  replaces them by a default when they are \<^verbatim>\<open>undefined\<close>. The values it can tell
  apart are the primitives and object references; an object is compared by identity,
  so a reference is all that is kept of it. \<open>JNum\<close> holds the integer-valued numbers and
  \<open>JNaN\<close> the number that is not equal to itself.
\<close>

datatype jsval =
    JUndefined
  | JNull
  | JBool bool
  | JNum int
  | JNaN
  | JStr string
  | JObj nat

text \<open>\<^verbatim>\<open>a === b\<close>: equal type and equal value, and \<^verbatim>\<open>NaN\<close> equal to nothing.\<close>

definition strict_eq :: "jsval \<Rightarrow> jsval \<Rightarrow> bool" where
  "strict_eq a b = (a \<noteq> JNaN \<and> a = b)"

text \<open>The conversion to a boolean that \<^verbatim>\<open>if (v)\<close> performs.\<close>

fun truthy :: "jsval \<Rightarrow> bool" where
  "truthy JUndefined = False"
| "truthy JNull = False"
| "truthy (JBool b) = b"
| "truthy (JNum n) = (n \<noteq> 0)"
| "truthy JNaN = False"
| "truthy (JStr s) = (s \<noteq> [])"
| "truthy (JObj r) = True"

text \<open>
  A call either returns a value or throws. \<open>TypeError\<close> is what reading a property of
  \<^verbatim>\<open>undefined\<close> or \<^verbatim>\<open>null\<close> throws; \<open>Thrown v\<close> is a value thrown inside a strategy.
\<close>

datatype error = TypeError | Thrown jsval

type_synonym 'a completion = "error + 'a"

section \<open>Data\<close>

text \<open>
  A key event as the manager reads it: \<^verbatim>\<open>_recordLastSeenEvent\<close> destructures the
  properties \<^verbatim>\<open>key\<close>, \<^verbatim>\<open>type\<close> and \<^verbatim>\<open>nativeEvent\<close>; everything else an event carries
  is in \<open>ev_others\<close>. A property the event lacks reads as \<open>JUndefined\<close>.
  The handlers are given an event object, as the destructuring parameter of
  \<^verbatim>\<open>_recordLastSeenEvent\<close> expects.
\<close>

record event =
  ev_key :: jsval
  ev_type :: jsval
  ev_nativeEvent :: jsval
  ev_others :: "(string \<times> jsval) list"

text \<open>The object literal \<^verbatim>\<open>{key, type, nativeEvent}\<close> stored in \<^verbatim>\<open>lastEventSeen\<close>.\<close>

record seen_event =
  seen_key :: jsval
  seen_type :: jsval
  seen_nativeEvent :: jsval

text \<open>
  The \<^verbatim>\<open>currentEvent\<close> of the focus-only strategy, of which
  \<^verbatim>\<open>reactAppHistoryWithEvent\<close> reads \<^verbatim>\<open>key\<close>, \<^verbatim>\<open>type\<close> and \<^verbatim>\<open>handled\<close>.
\<close>

record current_event =
  cur_key :: jsval
  cur_type :: jsval
  cur_handled :: jsval

text \<open>
  Maps from action names to key expressions and to handlers are JavaScript objects used
  as dictionaries; the association list keeps the order of their properties.
  \<open>[]\<close> is the empty object \<^verbatim>\<open>{}\<close>.
\<close>

type_synonym keymap = "(string \<times> jsval) list"
type_synonym handlermap = "(string \<times> jsval) list"

text \<open>
  The configuration object: its \<^verbatim>\<open>logger\<close> property (\<open>None\<close> when it is missing) and
  whatever else it holds. \<^verbatim>\<open>{}\<close> is \<open>empty_configuration\<close>.
\<close>

record 'lg configuration =
  cfg_logger :: "'lg option"
  cfg_settings :: "(string \<times> jsval) list"

definition empty_configuration :: "'lg configuration" where
  "empty_configuration = \<lparr>cfg_logger = None, cfg_settings = []\<rparr>"

text \<open>The object \<^verbatim>\<open>{ configuration, logger: this.logger }\<close> handed to both strategies.\<close>

record 'lg strategy_options =
  opt_configuration :: "'lg configuration"
  opt_logger :: 'lg

text \<open>
  The fields of a \<^verbatim>\<open>KeyEventManager\<close>. The two strategies are objects of classes whose
  source is not part of \<^verbatim>\<open>KeyEventManager.js\<close>; their states are the type parameters
  \<open>'fs\<close> and \<open>'gs\<close>. \<open>lastEventSeen = None\<close> is \<^verbatim>\<open>null\<close>.
\<close>

record ('lg, 'fs, 'gs) manager =
  logger :: 'lg
  focusOnlyEventStrategy :: 'fs
  globalEventStrategy :: 'gs
  lastEventSeen :: "seen_event option"

section \<open>The collaborators\<close>

text \<open>
  \<^verbatim>\<open>KeyEventManager.js\<close> imports \<^verbatim>\<open>Logger\<close>, \<^verbatim>\<open>FocusOnlyKeyEventStrategy\<close>,
  \<^verbatim>\<open>GlobalKeyEventStrategy\<close> and \<^verbatim>\<open>isFromFocusOnlyComponent\<close>. They are parameters of
  the embedding, collected in one record:

  \<^item> \<open>new_Logger\<close> is the constructor \<^verbatim>\<open>new Logger(level)\<close>;
  \<^item> \<open>isFromFocusOnlyComponent\<close> is the predicate on a focus tree id;
  \<^item> \<open>new_FocusOnlyKeyEventStrategy\<close> and the \<open>fo_\<close> fields are the constructor and the
    methods of the focus-only strategy, each method a function from the strategy's state to
    its completion and its new state; \<open>currentEvent\<close> reads the property of that name,
    \<open>None\<close> when it is \<^verbatim>\<open>undefined\<close> or \<^verbatim>\<open>null\<close>;
  \<^item> \<open>new_GlobalKeyEventStrategy\<close> and the \<open>gl_\<close> fields are those of the global strategy.
    Its constructor receives the manager itself (\<^verbatim>\<open>this\<close>) as second argument: the
    constructor gets the manager's address, and each method gets the manager as it is at
    the time of the call, to read.

  A strategy's method changes the state of its own strategy. What a strategy might write
  elsewhere through a reference it holds is not code of the manager and is not modelled.
\<close>

record ('lg, 'fs, 'gs) collaborators =
  new_Logger :: "string \<Rightarrow> 'lg"
  isFromFocusOnlyComponent :: "jsval \<Rightarrow> bool"
  new_FocusOnlyKeyEventStrategy :: "'lg strategy_options \<Rightarrow> 'fs"
  fo_addHotKeys :: "keymap \<Rightarrow> handlermap \<Rightarrow> jsval \<Rightarrow> 'fs \<Rightarrow> jsval completion \<times> 'fs"
  fo_updateHotKeys ::
    "jsval \<Rightarrow> jsval \<Rightarrow> keymap \<Rightarrow> handlermap \<Rightarrow> jsval \<Rightarrow> 'fs \<Rightarrow> jsval completion \<times> 'fs"
  fo_removeHotKeys :: "jsval \<Rightarrow> jsval \<Rightarrow> 'fs \<Rightarrow> jsval completion \<times> 'fs"
  fo_handleKeydown :: "event \<Rightarrow> jsval \<Rightarrow> jsval \<Rightarrow> jsval \<Rightarrow> 'fs \<Rightarrow> jsval completion \<times> 'fs"
  fo_handleKeypress :: "event \<Rightarrow> jsval \<Rightarrow> jsval \<Rightarrow> jsval \<Rightarrow> 'fs \<Rightarrow> jsval completion \<times> 'fs"
  fo_handleKeyup :: "event \<Rightarrow> jsval \<Rightarrow> jsval \<Rightarrow> jsval \<Rightarrow> 'fs \<Rightarrow> jsval completion \<times> 'fs"
  currentEvent :: "'fs \<Rightarrow> current_event option"
  new_GlobalKeyEventStrategy :: "'lg strategy_options \<Rightarrow> nat \<Rightarrow> 'gs"
  gl_addHotKeys ::
    "keymap \<Rightarrow> handlermap \<Rightarrow> jsval \<Rightarrow> jsval \<Rightarrow> ('lg, 'fs, 'gs) manager \<Rightarrow> 'gs
      \<Rightarrow> jsval completion \<times> 'gs"
  gl_updateHotKeys ::
    "jsval \<Rightarrow> keymap \<Rightarrow> handlermap \<Rightarrow> jsval \<Rightarrow> jsval \<Rightarrow> ('lg, 'fs, 'gs) manager \<Rightarrow> 'gs
      \<Rightarrow> jsval completion \<times> 'gs"
  gl_removeHotKeys :: "jsval \<Rightarrow> ('lg, 'fs, 'gs) manager \<Rightarrow> 'gs \<Rightarrow> jsval completion \<times> 'gs"
  gl_handleKeydown :: "event \<Rightarrow> ('lg, 'fs, 'gs) manager \<Rightarrow> 'gs \<Rightarrow> jsval completion \<times> 'gs"
  gl_handleKeypress :: "event \<Rightarrow> ('lg, 'fs, 'gs) manager \<Rightarrow> 'gs \<Rightarrow> jsval completion \<times> 'gs"
  gl_handleKeyup :: "event \<Rightarrow> ('lg, 'fs, 'gs) manager \<Rightarrow> 'gs \<Rightarrow> jsval completion \<times> 'gs"

section \<open>The manager's methods\<close>

text \<open>
  A default parameter \<^verbatim>\<open>x = d\<close>: the default replaces an argument that is
  \<^verbatim>\<open>undefined\<close>, which is also what an omitted argument is.
\<close>

definition default_to :: "'a \<Rightarrow> 'a option \<Rightarrow> 'a" where
  "default_to d a = (case a of None \<Rightarrow> d | Some v \<Rightarrow> v)"

text \<open>
  \<^verbatim>\<open>return this.focusOnlyEventStrategy.f(...)\<close> and
  \<^verbatim>\<open>return this.globalEventStrategy.f(...)\<close>: the method runs on the strategy's state, the
  manager keeps the strategy as the method left it and returns its completion.
\<close>

definition on_focusOnly ::
  "('fs \<Rightarrow> 'r \<times> 'fs) \<Rightarrow> ('lg, 'fs, 'gs) manager \<Rightarrow> 'r \<times> ('lg, 'fs, 'gs) manager" where
  "on_focusOnly f m =
     (case f (focusOnlyEventStrategy m) of
        (r, fs) \<Rightarrow> (r, m\<lparr>focusOnlyEventStrategy := fs\<rparr>))"

definition on_global ::
  "(('lg, 'fs, 'gs) manager \<Rightarrow> 'gs \<Rightarrow> 'r \<times> 'gs) \<Rightarrow> ('lg, 'fs, 'gs) manager
     \<Rightarrow> 'r \<times> ('lg, 'fs, 'gs) manager" where
  "on_global f m =
     (case f m (globalEventStrategy m) of
        (r, gs) \<Rightarrow> (r, m\<lparr>globalEventStrategy := gs\<rparr>))"

text \<open>The constructor (lines 36 to 46); \<open>self\<close> is the address of the object built.\<close>

definition new_KeyEventManager ::
  "('lg, 'fs, 'gs) collaborators \<Rightarrow> 'lg configuration option \<Rightarrow> nat
     \<Rightarrow> ('lg, 'fs, 'gs) manager" where
  "new_KeyEventManager E configuration self =
     (let cfg = default_to empty_configuration configuration;
          lg = (case cfg_logger cfg of Some l \<Rightarrow> l | None \<Rightarrow> new_Logger E ''warn'');
          opts = \<lparr>opt_configuration = cfg, opt_logger = lg\<rparr>
      in \<lparr>logger = lg,
          focusOnlyEventStrategy = new_FocusOnlyKeyEventStrategy E opts,
          globalEventStrategy = new_GlobalKeyEventStrategy E opts self,
          lastEventSeen = None\<rparr>)"

text \<open>Focus key events (lines 61 to 120).\<close>

definition addHotKeys ::
  "('lg, 'fs, 'gs) collaborators \<Rightarrow> keymap option \<Rightarrow> handlermap option \<Rightarrow> jsval
     \<Rightarrow> ('lg, 'fs, 'gs) manager \<Rightarrow> jsval completion \<times> ('lg, 'fs, 'gs) manager" where
  "addHotKeys E actionNameToKeyMap actionNameToHandlersMap options =
     on_focusOnly (fo_addHotKeys E
       (default_to [] actionNameToKeyMap)
       (default_to [] actionNameToHandlersMap)
       options)"

definition updateHotKeys ::
  "('lg, 'fs, 'gs) collaborators \<Rightarrow> jsval \<Rightarrow> jsval \<Rightarrow> keymap option \<Rightarrow> handlermap option
     \<Rightarrow> jsval \<Rightarrow> ('lg, 'fs, 'gs) manager \<Rightarrow> jsval completion \<times> ('lg, 'fs, 'gs) manager" where
  "updateHotKeys E focusTreeId componentId actionNameToKeyMap actionNameToHandlersMap options =
     on_focusOnly (fo_updateHotKeys E
       focusTreeId
       componentId
       (default_to [] actionNameToKeyMap)
       (default_to [] actionNameToHandlersMap)
       options)"

definition removeHotKeys ::
  "('lg, 'fs, 'gs) collaborators \<Rightarrow> jsval \<Rightarrow> jsval
     \<Rightarrow> ('lg, 'fs, 'gs) manager \<Rightarrow> jsval completion \<times> ('lg, 'fs, 'gs) manager" where
  "removeHotKeys E focusTreeId componentId =
     on_focusOnly (fo_removeHotKeys E focusTreeId componentId)"

definition recordLastSeenEvent ::
  "event \<Rightarrow> ('lg, 'fs, 'gs) manager \<Rightarrow> ('lg, 'fs, 'gs) manager" where
  "recordLastSeenEvent e m =
     m\<lparr>lastEventSeen :=
         Some \<lparr>seen_key = ev_key e, seen_type = ev_type e,
               seen_nativeEvent = ev_nativeEvent e\<rparr>\<rparr>"

text \<open>
  The three handlers have one shape: the guarded \<^verbatim>\<open>return\<close> of the strategy's result,
  and otherwise the recording, after which the function ends without a \<^verbatim>\<open>return\<close>
  and so yields \<^verbatim>\<open>undefined\<close>.
\<close>

definition handleKeydown ::
  "('lg, 'fs, 'gs) collaborators \<Rightarrow> event \<Rightarrow> jsval \<Rightarrow> jsval \<Rightarrow> jsval
     \<Rightarrow> ('lg, 'fs, 'gs) manager \<Rightarrow> jsval completion \<times> ('lg, 'fs, 'gs) manager" where
  "handleKeydown E e focusTreeId componentId options m =
     (if isFromFocusOnlyComponent E focusTreeId
      then on_focusOnly (fo_handleKeydown E e focusTreeId componentId options) m
      else (Inr JUndefined, recordLastSeenEvent e m))"

definition handleKeypress ::
  "('lg, 'fs, 'gs) collaborators \<Rightarrow> event \<Rightarrow> jsval \<Rightarrow> jsval \<Rightarrow> jsval
     \<Rightarrow> ('lg, 'fs, 'gs) manager \<Rightarrow> jsval completion \<times> ('lg, 'fs, 'gs) manager" where
  "handleKeypress E e focusTreeId componentId options m =
     (if isFromFocusOnlyComponent E focusTreeId
      then on_focusOnly (fo_handleKeypress E e focusTreeId componentId options) m
      else (Inr JUndefined, recordLastSeenEvent e m))"

definition handleKeyup ::
  "('lg, 'fs, 'gs) collaborators \<Rightarrow> event \<Rightarrow> jsval \<Rightarrow> jsval \<Rightarrow> jsval
     \<Rightarrow> ('lg, 'fs, 'gs) manager \<Rightarrow> jsval completion \<times> ('lg, 'fs, 'gs) manager" where
  "handleKeyup E e focusTreeId componentId options m =
     (if isFromFocusOnlyComponent E focusTreeId
      then on_focusOnly (fo_handleKeyup E e focusTreeId componentId options) m
      else (Inr JUndefined, recordLastSeenEvent e m))"

text \<open>Global key events (lines 126 to 159).\<close>

definition addGlobalHotKeys ::
  "('lg, 'fs, 'gs) collaborators \<Rightarrow> keymap option \<Rightarrow> handlermap option \<Rightarrow> jsval \<Rightarrow> jsval
     \<Rightarrow> ('lg, 'fs, 'gs) manager \<Rightarrow> jsval completion \<times> ('lg, 'fs, 'gs) manager" where
  "addGlobalHotKeys E actionNameToKeyMap actionNameToHandlersMap options eventOptions =
     on_global (gl_addHotKeys E
       (default_to [] actionNameToKeyMap)
       (default_to [] actionNameToHandlersMap)
       options
       eventOptions)"

definition updateGlobalHotKeys ::
  "('lg, 'fs, 'gs) collaborators \<Rightarrow> jsval \<Rightarrow> keymap option \<Rightarrow> handlermap option \<Rightarrow> jsval
     \<Rightarrow> jsval \<Rightarrow> ('lg, 'fs, 'gs) manager \<Rightarrow> jsval completion \<times> ('lg, 'fs, 'gs) manager" where
  "updateGlobalHotKeys E componentId actionNameToKeyMap actionNameToHandlersMap options
       eventOptions =
     on_global (gl_updateHotKeys E
       componentId
       (default_to [] actionNameToKeyMap)
       (default_to [] actionNameToHandlersMap)
       options
       eventOptions)"

definition removeGlobalHotKeys ::
  "('lg, 'fs, 'gs) collaborators \<Rightarrow> jsval
     \<Rightarrow> ('lg, 'fs, 'gs) manager \<Rightarrow> jsval completion \<times> ('lg, 'fs, 'gs) manager" where
  "removeGlobalHotKeys E componentId = on_global (gl_removeHotKeys E componentId)"

definition handleGlobalKeydown ::
  "('lg, 'fs, 'gs) collaborators \<Rightarrow> event
     \<Rightarrow> ('lg, 'fs, 'gs) manager \<Rightarrow> jsval completion \<times> ('lg, 'fs, 'gs) manager" where
  "handleGlobalKeydown E e = on_global (gl_handleKeydown E e)"

definition handleGlobalKeypress ::
  "('lg, 'fs, 'gs) collaborators \<Rightarrow> event
     \<Rightarrow> ('lg, 'fs, 'gs) manager \<Rightarrow> jsval completion \<times> ('lg, 'fs, 'gs) manager" where
  "handleGlobalKeypress E e = on_global (gl_handleKeypress E e)"

definition handleGlobalKeyup ::
  "('lg, 'fs, 'gs) collaborators \<Rightarrow> event
     \<Rightarrow> ('lg, 'fs, 'gs) manager \<Rightarrow> jsval completion \<times> ('lg, 'fs, 'gs) manager" where
  "handleGlobalKeyup E e = on_global (gl_handleKeyup E e)"

text \<open>
  \<^verbatim>\<open>reactAppHistoryWithEvent\<close> (lines 161 to 173) changes nothing and returns one of three
  strings. It reads \<^verbatim>\<open>currentEvent.key\<close> first: when \<^verbatim>\<open>currentEvent\<close> is
  \<^verbatim>\<open>undefined\<close> or \<^verbatim>\<open>null\<close> that read throws a \<^verbatim>\<open>TypeError\<close>.
\<close>

definition reactAppHistoryWithEvent ::
  "('lg, 'fs, 'gs) collaborators \<Rightarrow> jsval \<Rightarrow> jsval \<Rightarrow> ('lg, 'fs, 'gs) manager
     \<Rightarrow> string completion" where
  "reactAppHistoryWithEvent E key type m =
     (case currentEvent E (focusOnlyEventStrategy m) of
        None \<Rightarrow> Inl TypeError
      | Some cur \<Rightarrow>
          if strict_eq (cur_key cur) key \<and> strict_eq (cur_type cur) type
          then (if truthy (cur_handled cur) then Inr ''handled'' else Inr ''seen'')
          else Inr ''unseen'')"

section \<open>The singleton\<close>

text \<open>
  \<^verbatim>\<open>getInstance\<close> and \<^verbatim>\<open>clear\<close> (lines 20 to 30) work on the static property
  \<^verbatim>\<open>KeyEventManager.instance\<close>, and what they promise is about the identity of objects.
  So the managers live in a store: \<open>objects\<close> lists every manager constructed so far, the
  address of a manager is its position in that list, and \<open>KeyEventManager_instance\<close> is the
  address the static property holds, \<open>None\<close> when the property does not exist. A manager
  that \<^verbatim>\<open>clear\<close> has dropped stays in the store: whoever still holds it can go on using it.
\<close>

record ('lg, 'fs, 'gs) world =
  KeyEventManager_instance :: "nat option"
  objects :: "('lg, 'fs, 'gs) manager list"

definition initial_world :: "('lg, 'fs, 'gs) world" where
  "initial_world = \<lparr>KeyEventManager_instance = None, objects = []\<rparr>"

text \<open>
  \<^verbatim>\<open>if (!this.instance) { this.instance = new KeyEventManager(configuration); }
  return this.instance;\<close> An object is truthy, so the test fails exactly when the property
  holds a manager. The default \<^verbatim>\<open>{}\<close> of the parameter is applied before the constructor
  is called.
\<close>

definition getInstance ::
  "('lg, 'fs, 'gs) collaborators \<Rightarrow> 'lg configuration option \<Rightarrow> ('lg, 'fs, 'gs) world
     \<Rightarrow> nat \<times> ('lg, 'fs, 'gs) world" where
  "getInstance E configuration w =
     (case KeyEventManager_instance w of
        None \<Rightarrow>
          (let self = length (objects w);
               m = new_KeyEventManager E
                     (Some (default_to empty_configuration configuration)) self
           in (self, w\<lparr>KeyEventManager_instance := Some self, objects := objects w @ [m]\<rparr>))
      | Some r \<Rightarrow> (r, w))"

text \<open>\<^verbatim>\<open>delete this.instance\<close>.\<close>

definition clear :: "('lg, 'fs, 'gs) world \<Rightarrow> ('lg, 'fs, 'gs) world" where
  "clear w = w\<lparr>KeyEventManager_instance := None\<rparr>"

text \<open>A method called on the manager at address \<open>r\<close>.\<close>

definition invoke ::
  "nat \<Rightarrow> (('lg, 'fs, 'gs) manager \<Rightarrow> 'r \<times> ('lg, 'fs, 'gs) manager) \<Rightarrow> ('lg, 'fs, 'gs) world
     \<Rightarrow> ('r \<times> ('lg, 'fs, 'gs) world) option" where
  "invoke r f w =
     (if r < length (objects w)
      then (case f (objects w ! r) of (res, m) \<Rightarrow> Some (res, w\<lparr>objects := (objects w)[r := m]\<rparr>))
      else None)"

text \<open>The static property, when it exists, holds the address of a constructed manager.\<close>

definition world_ok :: "('lg, 'fs, 'gs) world \<Rightarrow> bool" where
  "world_ok w =
     (case KeyEventManager_instance w of None \<Rightarrow> True | Some r \<Rightarrow> r < length (objects w))"

section \<open>The public surface as a datatype of calls\<close>

text \<open>
  To speak about every operation of a manager at once, the calls of its public methods are
  collected in a datatype, and \<open>call\<close> runs one of them. The string that
  \<^verbatim>\<open>reactAppHistoryWithEvent\<close> returns is wrapped in \<open>JStr\<close>.
\<close>

datatype manager_call =
    AddHotKeys "keymap option" "handlermap option" jsval
  | UpdateHotKeys jsval jsval "keymap option" "handlermap option" jsval
  | RemoveHotKeys jsval jsval
  | HandleKeydown event jsval jsval jsval
  | HandleKeypress event jsval jsval jsval
  | HandleKeyup event jsval jsval jsval
  | AddGlobalHotKeys "keymap option" "handlermap option" jsval jsval
  | UpdateGlobalHotKeys jsval "keymap option" "handlermap option" jsval jsval
  | RemoveGlobalHotKeys jsval
  | HandleGlobalKeydown event
  | HandleGlobalKeypress event
  | HandleGlobalKeyup event
  | ReactAppHistoryWithEvent jsval jsval

fun call ::
  "('lg, 'fs, 'gs) collaborators \<Rightarrow> manager_call \<Rightarrow> ('lg, 'fs, 'gs) manager
     \<Rightarrow> jsval completion \<times> ('lg, 'fs, 'gs) manager" where
  "call E (AddHotKeys km hm opts) m = addHotKeys E km hm opts m"
| "call E (UpdateHotKeys ft ci km hm opts) m = updateHotKeys E ft ci km hm opts m"
| "call E (RemoveHotKeys ft ci) m = removeHotKeys E ft ci m"
| "call E (HandleKeydown e ft ci opts) m = handleKeydown E e ft ci opts m"
| "call E (HandleKeypress e ft ci opts) m = handleKeypress E e ft ci opts m"
| "call E (HandleKeyup e ft ci opts) m = handleKeyup E e ft ci opts m"
| "call E (AddGlobalHotKeys km hm opts eo) m = addGlobalHotKeys E km hm opts eo m"
| "call E (UpdateGlobalHotKeys ci km hm opts eo) m = updateGlobalHotKeys E ci km hm opts eo m"
| "call E (RemoveGlobalHotKeys ci) m = removeGlobalHotKeys E ci m"
| "call E (HandleGlobalKeydown e) m = handleGlobalKeydown E e m"
| "call E (HandleGlobalKeypress e) m = handleGlobalKeypress E e m"
| "call E (HandleGlobalKeyup e) m = handleGlobalKeyup E e m"
| "call E (ReactAppHistoryWithEvent k t) m = (map_sum id JStr (reactAppHistoryWithEvent E k t m), m)"

text \<open>
  The calls that reach the recording branch of a handler: one of the three focus handlers,
  with a focus tree id that \<open>isFromFocusOnlyComponent\<close> rejects.
\<close>

fun records_event :: "('lg, 'fs, 'gs) collaborators \<Rightarrow> manager_call \<Rightarrow> bool" where
  "records_event E (HandleKeydown e ft ci opts) = (\<not> isFromFocusOnlyComponent E ft)"
| "records_event E (HandleKeypress e ft ci opts) = (\<not> isFromFocusOnlyComponent E ft)"
| "records_event E (HandleKeyup e ft ci opts) = (\<not> isFromFocusOnlyComponent E ft)"
| "records_event E _ = False"

text \<open>The calls that run a method of the focus-only strategy.\<close>

fun runs_focusOnly :: "('lg, 'fs, 'gs) collaborators \<Rightarrow> manager_call \<Rightarrow> bool" where
  "runs_focusOnly E (AddHotKeys km hm opts) = True"
| "runs_focusOnly E (UpdateHotKeys ft ci km hm opts) = True"
| "runs_focusOnly E (RemoveHotKeys ft ci) = True"
| "runs_focusOnly E (HandleKeydown e ft ci opts) = isFromFocusOnlyComponent E ft"
| "runs_focusOnly E (HandleKeypress e ft ci opts) = isFromFocusOnlyComponent E ft"
| "runs_focusOnly E (HandleKeyup e ft ci opts) = isFromFocusOnlyComponent E ft"
| "runs_focusOnly E _ = False"

text \<open>
  A focus-only strategy none of whose methods changes its own \<^verbatim>\<open>currentEvent\<close>. With
  such a strategy, any change of \<^verbatim>\<open>currentEvent\<close> would be the manager's doing.
\<close>

definition focusOnly_keeps_currentEvent :: "('lg, 'fs, 'gs) collaborators \<Rightarrow> bool" where
  "focusOnly_keeps_currentEvent E =
     ((\<forall>km hm opts s. currentEvent E (snd (fo_addHotKeys E km hm opts s)) = currentEvent E s)
    \<and> (\<forall>ft ci km hm opts s.
          currentEvent E (snd (fo_updateHotKeys E ft ci km hm opts s)) = currentEvent E s)
    \<and> (\<forall>ft ci s. currentEvent E (snd (fo_removeHotKeys E ft ci s)) = currentEvent E s)
    \<and> (\<forall>e ft ci opts s.
          currentEvent E (snd (fo_handleKeydown E e ft ci opts s)) = currentEvent E s)
    \<and> (\<forall>e ft ci opts s.
          currentEvent E (snd (fo_handleKeypress E e ft ci opts s)) = currentEvent E s)
    \<and> (\<forall>e ft ci opts s.
          currentEvent E (snd (fo_handleKeyup E e ft ci opts s)) = currentEvent E s))"

section \<open>Sample collaborators\<close>

text \<open>
  A small pair of strategies on which the manager can be run at concrete inputs. The
  logger is its level. The focus-only strategy holds its \<^verbatim>\<open>currentEvent\<close> and a counter of
  the component ids it has given out; its handlers answer whether the event carries a
  key. The global strategy counts its registrations. The predicate accepts every focus
  tree id that is not \<^verbatim>\<open>undefined\<close>.
\<close>

record sample_focusOnly =
  sf_currentEvent :: "current_event option"
  sf_componentIds :: nat

definition sample_handle ::
  "event \<Rightarrow> jsval \<Rightarrow> jsval \<Rightarrow> jsval \<Rightarrow> sample_focusOnly \<Rightarrow> jsval completion \<times> sample_focusOnly"
  where
  "sample_handle e ft ci opts s = (Inr (JBool (ev_key e \<noteq> JUndefined)), s)"

definition sample_collaborators :: "(string, sample_focusOnly, nat) collaborators" where
  "sample_collaborators =
     \<lparr>new_Logger = (\<lambda>level. level),
      isFromFocusOnlyComponent = (\<lambda>ft. ft \<noteq> JUndefined),
      new_FocusOnlyKeyEventStrategy =
        (\<lambda>opts. \<lparr>sf_currentEvent =
                   Some \<lparr>cur_key = JNull, cur_type = JNull, cur_handled = JBool False\<rparr>,
                 sf_componentIds = 0\<rparr>),
      fo_addHotKeys =
        (\<lambda>km hm opts s.
           (Inr (JNum (int (sf_componentIds s))), s\<lparr>sf_componentIds := Suc (sf_componentIds s)\<rparr>)),
      fo_updateHotKeys = (\<lambda>ft ci km hm opts s. (Inr JUndefined, s)),
      fo_removeHotKeys = (\<lambda>ft ci s. (Inr (JBool (ci \<noteq> JNum 0)), s)),
      fo_handleKeydown = sample_handle,
      fo_handleKeypress = sample_handle,
      fo_handleKeyup = sample_handle,
      currentEvent = sf_currentEvent,
      new_GlobalKeyEventStrategy = (\<lambda>opts self. 0),
      gl_addHotKeys = (\<lambda>km hm opts eo m gs. (Inr (JNum (int gs)), Suc gs)),
      gl_updateHotKeys = (\<lambda>ci km hm opts eo m gs. (Inr JUndefined, gs)),
      gl_removeHotKeys = (\<lambda>ci m gs. (Inr (JBool (gs = 0)), gs - 1)),
      gl_handleKeydown = (\<lambda>e m gs. (Inr (JBool (lastEventSeen m = None)), gs)),
      gl_handleKeypress = (\<lambda>e m gs. (Inr JUndefined, gs)),
      gl_handleKeyup = (\<lambda>e m gs. (Inl (Thrown (ev_key e)), gs))\<rparr>"

definition sample_event :: event where
  "sample_event =
     \<lparr>ev_key = JStr ''a'', ev_type = JStr ''keydown'', ev_nativeEvent = JObj 7,
      ev_others = [(''ctrlKey'', JBool False)]\<rparr>"

definition sample_manager :: "(string, sample_focusOnly, nat) manager" where
  "sample_manager =
     \<lparr>logger = ''warn'',
      focusOnlyEventStrategy =
        \<lparr>sf_currentEvent =
           Some \<lparr>cur_key = JStr ''a'', cur_type = JStr ''keydown'', cur_handled = JBool True\<rparr>,
         sf_componentIds = 2\<rparr>,
      globalEventStrategy = 1,
      lastEventSeen =
        Some \<lparr>seen_key = JStr ''b'', seen_type = JStr ''keyup'', seen_nativeEvent = JObj 3\<rparr>\<rparr>"

text \<open>
  The worlds a program can be in: it starts with no manager, and it calls \<^verbatim>\<open>getInstance\<close>,
  \<^verbatim>\<open>clear\<close> and the methods of the managers it holds.
\<close>

inductive reachable ::
  "('lg, 'fs, 'gs) collaborators \<Rightarrow> ('lg, 'fs, 'gs) world \<Rightarrow> bool"
  for E :: "('lg, 'fs, 'gs) collaborators" where
  reachable_initial: "reachable E initial_world"
| reachable_getInstance: "reachable E w \<Longrightarrow> reachable E (snd (getInstance E configuration w))"
| reachable_clear: "reachable E w \<Longrightarrow> reachable E (clear w)"
| reachable_invoke:
    "reachable E w \<Longrightarrow> invoke r (call E c) w = Some (res, w') \<Longrightarrow> reachable E w'"

section \<open>Delegation leaves the rest of the manager alone\<close>

lemma on_focusOnly_result [simp]:
  "fst (on_focusOnly f m) = fst (f (focusOnlyEventStrategy m))"
  by (simp add: on_focusOnly_def split: prod.splits)

lemma on_focusOnly_state [simp]:
  "snd (on_focusOnly f m) = m\<lparr>focusOnlyEventStrategy := snd (f (focusOnlyEventStrategy m))\<rparr>"
  by (simp add: on_focusOnly_def split: prod.splits)

lemma on_global_result [simp]:
  "fst (on_global f m) = fst (f m (globalEventStrategy m))"
  by (simp add: on_global_def split: prod.splits)

lemma on_global_state [simp]:
  "snd (on_global f m) = m\<lparr>globalEventStrategy := snd (f m (globalEventStrategy m))\<rparr>"
  by (simp add: on_global_def split: prod.splits)

lemma default_to_simps [simp]:
  "default_to d None = d" "default_to d (Some v) = v"
  by (simp_all add: default_to_def)

lemma strict_eq_refl_iff: "strict_eq a a \<longleftrightarrow> a \<noteq> JNaN"
  by (simp add: strict_eq_def)

lemma strict_eq_JStr [simp]: "strict_eq (JStr s) b \<longleftrightarrow> b = JStr s"
  by (auto simp: strict_eq_def)

section \<open>The store stays well formed\<close>

lemma world_ok_initial: "world_ok initial_world"
  by (simp add: world_ok_def initial_world_def)

lemma world_ok_getInstance: "world_ok w \<Longrightarrow> world_ok (snd (getInstance E configuration w))"
  by (simp add: world_ok_def getInstance_def Let_def split: option.splits)

lemma world_ok_clear: "world_ok (clear w)"
  by (simp add: world_ok_def clear_def)

lemma world_ok_invoke: "world_ok w \<Longrightarrow> invoke r f w = Some (res, w') \<Longrightarrow> world_ok w'"
  by (auto simp: world_ok_def invoke_def split: if_splits prod.splits option.splits)

lemma reachable_world_ok: "reachable E w \<Longrightarrow> world_ok w"
proof (induction rule: reachable.induct)
  case reachable_initial
  show ?case by (rule world_ok_initial)
next
  case (reachable_getInstance w configuration)
  then show ?case by (simp add: world_ok_getInstance)
next
  case (reachable_clear w)
  show ?case by (rule world_ok_clear)
next
  case (reachable_invoke w r c res w')
  then show ?case by (blast intro: world_ok_invoke)
qed

lemma getInstance_sets_instance:
  "KeyEventManager_instance (snd (getInstance E configuration w))
     = Some (fst (getInstance E configuration w))"
  by (simp add: getInstance_def Let_def split: option.splits)

section \<open>The focus handlers\<close>

text \<open>
  C1. When \<open>isFromFocusOnlyComponent\<close> rejects the focus tree id, each of
  \<^verbatim>\<open>handleKeydown\<close>, \<^verbatim>\<open>handleKeypress\<close> and \<^verbatim>\<open>handleKeyup\<close> returns \<^verbatim>\<open>undefined\<close> and
  leaves the manager as it was except for \<^verbatim>\<open>lastEventSeen\<close>, which now holds the
  \<^verbatim>\<open>key\<close>, \<^verbatim>\<open>type\<close> and \<^verbatim>\<open>nativeEvent\<close> of the event. No method of the focus-only
  strategy takes part: the outcome does not mention the strategy, whose state is the
  one the manager had before.
\<close>

theorem handle_unscoped_records:
  assumes "\<not> isFromFocusOnlyComponent E focusTreeId"
  shows
    "handleKeydown E e focusTreeId componentId options m =
       (Inr JUndefined,
        m\<lparr>lastEventSeen := Some \<lparr>seen_key = ev_key e, seen_type = ev_type e,
                                   seen_nativeEvent = ev_nativeEvent e\<rparr>\<rparr>)
     \<and> handleKeypress E e focusTreeId componentId options m =
       (Inr JUndefined,
        m\<lparr>lastEventSeen := Some \<lparr>seen_key = ev_key e, seen_type = ev_type e,
                                   seen_nativeEvent = ev_nativeEvent e\<rparr>\<rparr>)
     \<and> handleKeyup E e focusTreeId componentId options m =
       (Inr JUndefined,
        m\<lparr>lastEventSeen := Some \<lparr>seen_key = ev_key e, seen_type = ev_type e,
                                   seen_nativeEvent = ev_nativeEvent e\<rparr>\<rparr>)
     \<and> focusOnlyEventStrategy (snd (handleKeydown E e focusTreeId componentId options m))
         = focusOnlyEventStrategy m
     \<and> focusOnlyEventStrategy (snd (handleKeypress E e focusTreeId componentId options m))
         = focusOnlyEventStrategy m
     \<and> focusOnlyEventStrategy (snd (handleKeyup E e focusTreeId componentId options m))
         = focusOnlyEventStrategy m"
  using assms
  by (simp add: handleKeydown_def handleKeypress_def handleKeyup_def recordLastSeenEvent_def)

theorem handle_unscoped_records_witness:
  "\<not> isFromFocusOnlyComponent sample_collaborators JUndefined
   \<and> handleKeydown sample_collaborators sample_event JUndefined (JNum 0) JNull sample_manager =
       (Inr JUndefined,
        sample_manager\<lparr>lastEventSeen :=
          Some \<lparr>seen_key = JStr ''a'', seen_type = JStr ''keydown'',
                seen_nativeEvent = JObj 7\<rparr>\<rparr>)
   \<and> lastEventSeen
       (snd (handleKeyup sample_collaborators sample_event JUndefined (JNum 0) JNull
          sample_manager))
     \<noteq> lastEventSeen sample_manager"
proof -
  have h: "\<not> isFromFocusOnlyComponent sample_collaborators JUndefined"
    by (simp add: sample_collaborators_def)
  show ?thesis
    using h handle_unscoped_records [OF h, of sample_event "JNum 0" JNull sample_manager]
    by (simp add: sample_event_def sample_manager_def)
qed

text \<open>
  C2. When \<open>isFromFocusOnlyComponent\<close> accepts the focus tree id, each of the three
  handlers returns what the method of the same name of the focus-only strategy returns
  for the same event, focus tree id, component id and options, the manager keeps the
  strategy as that method left it, and \<^verbatim>\<open>lastEventSeen\<close> is what it was.
\<close>

theorem handle_scoped_delegates:
  assumes "isFromFocusOnlyComponent E focusTreeId"
  shows
    "fst (handleKeydown E e focusTreeId componentId options m)
       = fst (fo_handleKeydown E e focusTreeId componentId options (focusOnlyEventStrategy m))
     \<and> fst (handleKeypress E e focusTreeId componentId options m)
       = fst (fo_handleKeypress E e focusTreeId componentId options (focusOnlyEventStrategy m))
     \<and> fst (handleKeyup E e focusTreeId componentId options m)
       = fst (fo_handleKeyup E e focusTreeId componentId options (focusOnlyEventStrategy m))
     \<and> snd (handleKeydown E e focusTreeId componentId options m)
       = m\<lparr>focusOnlyEventStrategy :=
            snd (fo_handleKeydown E e focusTreeId componentId options
                   (focusOnlyEventStrategy m))\<rparr>
     \<and> snd (handleKeypress E e focusTreeId componentId options m)
       = m\<lparr>focusOnlyEventStrategy :=
            snd (fo_handleKeypress E e focusTreeId componentId options
                   (focusOnlyEventStrategy m))\<rparr>
     \<and> snd (handleKeyup E e focusTreeId componentId options m)
       = m\<lparr>focusOnlyEventStrategy :=
            snd (fo_handleKeyup E e focusTreeId componentId options
                   (focusOnlyEventStrategy m))\<rparr>
     \<and> lastEventSeen (snd (handleKeydown E e focusTreeId componentId options m))
       = lastEventSeen m
     \<and> lastEventSeen (snd (handleKeypress E e focusTreeId componentId options m))
       = lastEventSeen m
     \<and> lastEventSeen (snd (handleKeyup E e focusTreeId componentId options m))
       = lastEventSeen m"
  using assms by (simp add: handleKeydown_def handleKeypress_def handleKeyup_def)

theorem handle_scoped_delegates_witness:
  "isFromFocusOnlyComponent sample_collaborators (JNum 1)
   \<and> fst (handleKeydown sample_collaborators sample_event (JNum 1) (JNum 0) JNull sample_manager)
       = Inr (JBool True)
   \<and> lastEventSeen
       (snd (handleKeydown sample_collaborators sample_event (JNum 1) (JNum 0) JNull
          sample_manager))
     = Some \<lparr>seen_key = JStr ''b'', seen_type = JStr ''keyup'', seen_nativeEvent = JObj 3\<rparr>"
proof -
  have h: "isFromFocusOnlyComponent sample_collaborators (JNum 1)"
    by (simp add: sample_collaborators_def)
  show ?thesis
    using h handle_scoped_delegates [OF h, of sample_event "JNum 0" JNull sample_manager]
    by (simp add: sample_collaborators_def sample_handle_def sample_event_def
        sample_manager_def)
qed

section \<open>The history of the current event\<close>

text \<open>
  C3, as the specification has it: with \<^verbatim>\<open>currentEvent\<close> absent,
  \<^verbatim>\<open>reactAppHistoryWithEvent\<close> returns \<^verbatim>\<open>'unseen'\<close> and raises nothing. The code reads
  \<^verbatim>\<open>currentEvent.key\<close> without a test, so with a focus-only strategy whose
  \<^verbatim>\<open>currentEvent\<close> is \<^verbatim>\<open>undefined\<close> the call throws a \<^verbatim>\<open>TypeError\<close> and returns nothing.
\<close>

theorem history_absent_currentEvent_counterexample:
  "currentEvent sample_collaborators
     (focusOnlyEventStrategy
        (sample_manager\<lparr>focusOnlyEventStrategy :=
           \<lparr>sf_currentEvent = None, sf_componentIds = 0\<rparr>\<rparr>)) = None
   \<and> reactAppHistoryWithEvent sample_collaborators (JStr ''a'') (JStr ''keydown'')
       (sample_manager\<lparr>focusOnlyEventStrategy :=
          \<lparr>sf_currentEvent = None, sf_componentIds = 0\<rparr>\<rparr>)
     = Inl TypeError
   \<and> reactAppHistoryWithEvent sample_collaborators (JStr ''a'') (JStr ''keydown'')
       (sample_manager\<lparr>focusOnlyEventStrategy :=
          \<lparr>sf_currentEvent = None, sf_componentIds = 0\<rparr>\<rparr>)
     \<noteq> Inr ''unseen''"
  by (simp add: reactAppHistoryWithEvent_def sample_collaborators_def sample_manager_def)

text \<open>
  C3, amended. For every key and type: with \<^verbatim>\<open>currentEvent\<close> absent,
  \<^verbatim>\<open>reactAppHistoryWithEvent\<close> throws a \<^verbatim>\<open>TypeError\<close>; with \<^verbatim>\<open>currentEvent\<close> present it
  throws nothing and returns one of \<^verbatim>\<open>'handled'\<close>, \<^verbatim>\<open>'seen'\<close> and \<^verbatim>\<open>'unseen'\<close>.
\<close>

theorem history_fails_iff_currentEvent_absent:
  "(currentEvent E (focusOnlyEventStrategy m) = None
      \<longrightarrow> reactAppHistoryWithEvent E key type m = Inl TypeError)
   \<and> (currentEvent E (focusOnlyEventStrategy m) \<noteq> None
      \<longrightarrow> reactAppHistoryWithEvent E key type m
            \<in> {Inr ''handled'', Inr ''seen'', Inr ''unseen''})"
  by (auto simp: reactAppHistoryWithEvent_def split: option.splits)

theorem history_fails_iff_currentEvent_absent_witness:
  "currentEvent sample_collaborators
     (focusOnlyEventStrategy
        (sample_manager\<lparr>focusOnlyEventStrategy :=
           \<lparr>sf_currentEvent = None, sf_componentIds = 0\<rparr>\<rparr>)) = None
   \<and> reactAppHistoryWithEvent sample_collaborators (JStr ''b'') (JStr ''keyup'')
       (sample_manager\<lparr>focusOnlyEventStrategy :=
          \<lparr>sf_currentEvent = None, sf_componentIds = 0\<rparr>\<rparr>)
     = Inl TypeError
   \<and> currentEvent sample_collaborators (focusOnlyEventStrategy sample_manager) \<noteq> None
   \<and> reactAppHistoryWithEvent sample_collaborators (JStr ''b'') (JStr ''keyup'') sample_manager
     \<in> {Inr ''handled'', Inr ''seen'', Inr ''unseen''}"
proof -
  let ?m0 = "sample_manager\<lparr>focusOnlyEventStrategy :=
               \<lparr>sf_currentEvent = None, sf_componentIds = 0\<rparr>\<rparr>"
  have absent: "currentEvent sample_collaborators (focusOnlyEventStrategy ?m0) = None"
    by (simp add: sample_collaborators_def)
  have present: "currentEvent sample_collaborators (focusOnlyEventStrategy sample_manager) \<noteq> None"
    by (simp add: sample_collaborators_def sample_manager_def)
  from absent present
    history_fails_iff_currentEvent_absent
      [of sample_collaborators ?m0 "JStr ''b''" "JStr ''keyup''"]
    history_fails_iff_currentEvent_absent
      [of sample_collaborators sample_manager "JStr ''b''" "JStr ''keyup''"]
  show ?thesis by blast
qed

text \<open>
  C4. With \<^verbatim>\<open>currentEvent\<close> present, \<^verbatim>\<open>reactAppHistoryWithEvent\<close> returns
  \<^verbatim>\<open>'handled'\<close> when \<^verbatim>\<open>currentEvent.key\<close> equals the key, \<^verbatim>\<open>currentEvent.type\<close> equals the
  type and \<^verbatim>\<open>currentEvent.handled\<close> is true; \<^verbatim>\<open>'seen'\<close> when key and type are equal and
  \<^verbatim>\<open>handled\<close> is false; \<^verbatim>\<open>'unseen'\<close> when the key or the type differs. Equality is the
  \<^verbatim>\<open>===\<close> of the code, and true and false are what the condition of \<^verbatim>\<open>if\<close> makes of
  \<^verbatim>\<open>handled\<close>.
\<close>

theorem history_of_present_currentEvent:
  assumes "currentEvent E (focusOnlyEventStrategy m) = Some cur"
  shows
    "(strict_eq (cur_key cur) key \<and> strict_eq (cur_type cur) type \<and> truthy (cur_handled cur)
        \<longrightarrow> reactAppHistoryWithEvent E key type m = Inr ''handled'')
     \<and> (strict_eq (cur_key cur) key \<and> strict_eq (cur_type cur) type \<and> \<not> truthy (cur_handled cur)
        \<longrightarrow> reactAppHistoryWithEvent E key type m = Inr ''seen'')
     \<and> (\<not> strict_eq (cur_key cur) key \<or> \<not> strict_eq (cur_type cur) type
        \<longrightarrow> reactAppHistoryWithEvent E key type m = Inr ''unseen'')"
  using assms by (simp add: reactAppHistoryWithEvent_def)

theorem history_of_present_currentEvent_witness:
  "reactAppHistoryWithEvent sample_collaborators (JStr ''a'') (JStr ''keydown'') sample_manager
     = Inr ''handled''
   \<and> reactAppHistoryWithEvent sample_collaborators (JStr ''a'') (JStr ''keydown'')
       (sample_manager\<lparr>focusOnlyEventStrategy :=
          \<lparr>sf_currentEvent =
             Some \<lparr>cur_key = JStr ''a'', cur_type = JStr ''keydown'', cur_handled = JBool False\<rparr>,
           sf_componentIds = 2\<rparr>\<rparr>)
     = Inr ''seen''
   \<and> reactAppHistoryWithEvent sample_collaborators (JStr ''a'') (JStr ''keydown'')
       (sample_manager\<lparr>focusOnlyEventStrategy :=
          \<lparr>sf_currentEvent =
             Some \<lparr>cur_key = JStr ''b'', cur_type = JStr ''keydown'', cur_handled = JBool True\<rparr>,
           sf_componentIds = 2\<rparr>\<rparr>)
     = Inr ''unseen''"
proof -
  let ?handled = "\<lparr>cur_key = JStr ''a'', cur_type = JStr ''keydown'', cur_handled = JBool True\<rparr>"
  let ?seen = "\<lparr>cur_key = JStr ''a'', cur_type = JStr ''keydown'', cur_handled = JBool False\<rparr>"
  let ?other = "\<lparr>cur_key = JStr ''b'', cur_type = JStr ''keydown'', cur_handled = JBool True\<rparr>"
  let ?m1 = "sample_manager\<lparr>focusOnlyEventStrategy :=
               \<lparr>sf_currentEvent = Some ?seen, sf_componentIds = 2\<rparr>\<rparr>"
  let ?m2 = "sample_manager\<lparr>focusOnlyEventStrategy :=
               \<lparr>sf_currentEvent = Some ?other, sf_componentIds = 2\<rparr>\<rparr>"
  have c0: "currentEvent sample_collaborators (focusOnlyEventStrategy sample_manager)
              = Some ?handled"
    by (simp add: sample_collaborators_def sample_manager_def)
  have c1: "currentEvent sample_collaborators (focusOnlyEventStrategy ?m1) = Some ?seen"
    by (simp add: sample_collaborators_def)
  have c2: "currentEvent sample_collaborators (focusOnlyEventStrategy ?m2) = Some ?other"
    by (simp add: sample_collaborators_def)
  from history_of_present_currentEvent [OF c0, of "JStr ''a''" "JStr ''keydown''"]
  have r0: "reactAppHistoryWithEvent sample_collaborators (JStr ''a'') (JStr ''keydown'')
              sample_manager = Inr ''handled''"
    by simp
  from history_of_present_currentEvent [OF c1, of "JStr ''a''" "JStr ''keydown''"]
  have r1: "reactAppHistoryWithEvent sample_collaborators (JStr ''a'') (JStr ''keydown'') ?m1
              = Inr ''seen''"
    by simp
  from history_of_present_currentEvent [OF c2, of "JStr ''a''" "JStr ''keydown''"]
  have r2: "reactAppHistoryWithEvent sample_collaborators (JStr ''a'') (JStr ''keydown'') ?m2
              = Inr ''unseen''"
    by simp
  from r0 r1 r2 show ?thesis by simp
qed

section \<open>The global handlers\<close>

text \<open>
  C5. Each of \<^verbatim>\<open>handleGlobalKeydown\<close>, \<^verbatim>\<open>handleGlobalKeypress\<close> and
  \<^verbatim>\<open>handleGlobalKeyup\<close> returns what the global strategy's handler returns for the event,
  whatever \<open>isFromFocusOnlyComponent\<close> is, and changes nothing of the manager but the
  global strategy: \<^verbatim>\<open>lastEventSeen\<close> and the focus-only strategy are what they were.
\<close>

theorem handleGlobal_forwards:
  "fst (handleGlobalKeydown E e m) = fst (gl_handleKeydown E e m (globalEventStrategy m))
   \<and> fst (handleGlobalKeypress E e m) = fst (gl_handleKeypress E e m (globalEventStrategy m))
   \<and> fst (handleGlobalKeyup E e m) = fst (gl_handleKeyup E e m (globalEventStrategy m))
   \<and> snd (handleGlobalKeydown E e m)
       = m\<lparr>globalEventStrategy := snd (gl_handleKeydown E e m (globalEventStrategy m))\<rparr>
   \<and> snd (handleGlobalKeypress E e m)
       = m\<lparr>globalEventStrategy := snd (gl_handleKeypress E e m (globalEventStrategy m))\<rparr>
   \<and> snd (handleGlobalKeyup E e m)
       = m\<lparr>globalEventStrategy := snd (gl_handleKeyup E e m (globalEventStrategy m))\<rparr>
   \<and> lastEventSeen (snd (handleGlobalKeydown E e m)) = lastEventSeen m
   \<and> lastEventSeen (snd (handleGlobalKeypress E e m)) = lastEventSeen m
   \<and> lastEventSeen (snd (handleGlobalKeyup E e m)) = lastEventSeen m
   \<and> handleGlobalKeydown (E\<lparr>isFromFocusOnlyComponent := p\<rparr>) e m = handleGlobalKeydown E e m
   \<and> handleGlobalKeypress (E\<lparr>isFromFocusOnlyComponent := p\<rparr>) e m = handleGlobalKeypress E e m
   \<and> handleGlobalKeyup (E\<lparr>isFromFocusOnlyComponent := p\<rparr>) e m = handleGlobalKeyup E e m"
  by (simp add: handleGlobalKeydown_def handleGlobalKeypress_def handleGlobalKeyup_def)

section \<open>The singleton's life\<close>

text \<open>
  C6. Two calls of \<^verbatim>\<open>getInstance\<close> in a row, with any two configurations and from any
  world, return the same manager, and the second call changes nothing: neither the
  manager nor anything else in the world depends on the second configuration.
\<close>

theorem getInstance_twice_same_instance:
  "fst (getInstance E c2 (snd (getInstance E c1 w))) = fst (getInstance E c1 w)
   \<and> snd (getInstance E c2 (snd (getInstance E c1 w))) = snd (getInstance E c1 w)"
  by (simp add: getInstance_def Let_def split: option.splits)

text \<open>
  C7. In a world whose static property, if set, holds a constructed manager: after
  \<^verbatim>\<open>clear\<close>, \<^verbatim>\<open>getInstance\<close> returns a manager that is not the one held before and is
  none of the managers constructed so far; those stay as they were; the new one is the
  constructor's result for the configuration of this call, with both strategies built
  by their constructors from that configuration and its logger, and with
  \<^verbatim>\<open>lastEventSeen\<close> equal to \<^verbatim>\<open>null\<close>.
\<close>

theorem getInstance_after_clear_is_fresh:
  assumes "world_ok w"
  shows
    "KeyEventManager_instance w \<noteq> Some (fst (getInstance E c (clear w)))
     \<and> fst (getInstance E c (clear w)) = length (objects w)
     \<and> KeyEventManager_instance (snd (getInstance E c (clear w)))
         = Some (fst (getInstance E c (clear w)))
     \<and> take (length (objects w)) (objects (snd (getInstance E c (clear w)))) = objects w
     \<and> objects (snd (getInstance E c (clear w))) ! fst (getInstance E c (clear w))
         = new_KeyEventManager E (Some (default_to empty_configuration c)) (length (objects w))
     \<and> lastEventSeen (objects (snd (getInstance E c (clear w))) ! fst (getInstance E c (clear w)))
         = None
     \<and> focusOnlyEventStrategy
           (objects (snd (getInstance E c (clear w))) ! fst (getInstance E c (clear w)))
         = new_FocusOnlyKeyEventStrategy E
             \<lparr>opt_configuration = default_to empty_configuration c,
              opt_logger = (case cfg_logger (default_to empty_configuration c) of
                              Some l \<Rightarrow> l | None \<Rightarrow> new_Logger E ''warn'')\<rparr>
     \<and> globalEventStrategy
           (objects (snd (getInstance E c (clear w))) ! fst (getInstance E c (clear w)))
         = new_GlobalKeyEventStrategy E
             \<lparr>opt_configuration = default_to empty_configuration c,
              opt_logger = (case cfg_logger (default_to empty_configuration c) of
                              Some l \<Rightarrow> l | None \<Rightarrow> new_Logger E ''warn'')\<rparr>
             (length (objects w))"
  using assms
  by (auto simp: world_ok_def getInstance_def clear_def new_KeyEventManager_def Let_def
      split: option.splits)

theorem getInstance_after_clear_is_fresh_witness:
  "world_ok \<lparr>KeyEventManager_instance = Some 0, objects = [sample_manager]\<rparr>
   \<and> fst (getInstance sample_collaborators None
        (clear \<lparr>KeyEventManager_instance = Some 0, objects = [sample_manager]\<rparr>)) = 1
   \<and> lastEventSeen
       (objects (snd (getInstance sample_collaborators None
          (clear \<lparr>KeyEventManager_instance = Some 0, objects = [sample_manager]\<rparr>))) ! 1) = None"
proof -
  let ?w = "\<lparr>KeyEventManager_instance = Some 0, objects = [sample_manager]\<rparr>"
  have h: "world_ok ?w" by (simp add: world_ok_def)
  note fresh = getInstance_after_clear_is_fresh [OF h, of sample_collaborators None]
  have r: "fst (getInstance sample_collaborators None (clear ?w)) = 1"
    using fresh [THEN conjunct2, THEN conjunct1] by simp
  have "lastEventSeen (objects (snd (getInstance sample_collaborators None (clear ?w)))
          ! fst (getInstance sample_collaborators None (clear ?w))) = None"
    using fresh by (elim conjE)
  with h r show ?thesis by simp
qed

section \<open>What a call may change\<close>

text \<open>
  C8. Over every call of a manager's method: a call that runs no method of the
  focus-only strategy leaves that strategy, and with it \<^verbatim>\<open>currentEvent\<close>, as it was;
  when the strategy's own methods do not change \<^verbatim>\<open>currentEvent\<close>, no call does, so
  the manager writes none of its own; and only a focus handler with a focus tree id
  that \<open>isFromFocusOnlyComponent\<close> rejects changes \<^verbatim>\<open>lastEventSeen\<close>: registering, updating,
  removing, the global handlers, the history query and the focus handlers with an
  accepted id all leave it as it was.
\<close>

theorem calls_frame:
  "(\<not> runs_focusOnly E c
      \<longrightarrow> focusOnlyEventStrategy (snd (call E c m)) = focusOnlyEventStrategy m)
   \<and> (focusOnly_keeps_currentEvent E
      \<longrightarrow> currentEvent E (focusOnlyEventStrategy (snd (call E c m)))
            = currentEvent E (focusOnlyEventStrategy m))
   \<and> (\<not> records_event E c \<longrightarrow> lastEventSeen (snd (call E c m)) = lastEventSeen m)"
proof (intro conjI impI)
  assume "\<not> runs_focusOnly E c"
  then show "focusOnlyEventStrategy (snd (call E c m)) = focusOnlyEventStrategy m"
    by (cases c)
      (simp_all add: handleKeydown_def handleKeypress_def handleKeyup_def
        recordLastSeenEvent_def addGlobalHotKeys_def updateGlobalHotKeys_def
        removeGlobalHotKeys_def handleGlobalKeydown_def handleGlobalKeypress_def
        handleGlobalKeyup_def)
next
  assume "focusOnly_keeps_currentEvent E"
  then show "currentEvent E (focusOnlyEventStrategy (snd (call E c m)))
               = currentEvent E (focusOnlyEventStrategy m)"
    unfolding focusOnly_keeps_currentEvent_def
    by (cases c)
      (simp_all add: addHotKeys_def updateHotKeys_def removeHotKeys_def
        handleKeydown_def handleKeypress_def handleKeyup_def
        recordLastSeenEvent_def addGlobalHotKeys_def updateGlobalHotKeys_def
        removeGlobalHotKeys_def handleGlobalKeydown_def handleGlobalKeypress_def
        handleGlobalKeyup_def)
next
  assume "\<not> records_event E c"
  then show "lastEventSeen (snd (call E c m)) = lastEventSeen m"
    by (cases c)
      (simp_all add: addHotKeys_def updateHotKeys_def removeHotKeys_def
        handleKeydown_def handleKeypress_def handleKeyup_def
        addGlobalHotKeys_def updateGlobalHotKeys_def
        removeGlobalHotKeys_def handleGlobalKeydown_def handleGlobalKeypress_def
        handleGlobalKeyup_def)
qed

theorem calls_frame_witness:
  "\<not> runs_focusOnly sample_collaborators (HandleGlobalKeydown sample_event)
   \<and> focusOnlyEventStrategy (snd (call sample_collaborators (HandleGlobalKeydown sample_event)
        sample_manager)) = focusOnlyEventStrategy sample_manager
   \<and> focusOnly_keeps_currentEvent sample_collaborators
   \<and> currentEvent sample_collaborators
       (focusOnlyEventStrategy
          (snd (call sample_collaborators (AddHotKeys None None JUndefined) sample_manager)))
     = Some \<lparr>cur_key = JStr ''a'', cur_type = JStr ''keydown'', cur_handled = JBool True\<rparr>
   \<and> \<not> records_event sample_collaborators (HandleKeydown sample_event (JNum 1) (JNum 0) JNull)
   \<and> lastEventSeen
       (snd (call sample_collaborators (HandleKeydown sample_event (JNum 1) (JNum 0) JNull)
          sample_manager))
     = Some \<lparr>seen_key = JStr ''b'', seen_type = JStr ''keyup'', seen_nativeEvent = JObj 3\<rparr>"
proof -
  have a: "\<not> runs_focusOnly sample_collaborators (HandleGlobalKeydown sample_event)"
    by simp
  have b: "focusOnly_keeps_currentEvent sample_collaborators"
    by (simp add: focusOnly_keeps_currentEvent_def sample_collaborators_def sample_handle_def)
  have c: "\<not> records_event sample_collaborators
               (HandleKeydown sample_event (JNum 1) (JNum 0) JNull)"
    by (simp add: sample_collaborators_def)
  have cur: "currentEvent sample_collaborators (focusOnlyEventStrategy sample_manager)
       = Some \<lparr>cur_key = JStr ''a'', cur_type = JStr ''keydown'', cur_handled = JBool True\<rparr>"
    by (simp add: sample_collaborators_def sample_manager_def)
  have seen: "lastEventSeen sample_manager
       = Some \<lparr>seen_key = JStr ''b'', seen_type = JStr ''keyup'', seen_nativeEvent = JObj 3\<rparr>"
    by (simp add: sample_manager_def)
  from a b c cur seen
    calls_frame [of sample_collaborators "HandleGlobalKeydown sample_event" sample_manager]
    calls_frame [of sample_collaborators "AddHotKeys None None JUndefined" sample_manager]
    calls_frame [of sample_collaborators "HandleKeydown sample_event (JNum 1) (JNum 0) JNull"
      sample_manager]
  show ?thesis by simp
qed

section \<open>Registration and removal\<close>

text \<open>
  C9. In \<^verbatim>\<open>addHotKeys\<close>, \<^verbatim>\<open>updateHotKeys\<close>, \<^verbatim>\<open>addGlobalHotKeys\<close> and
  \<^verbatim>\<open>updateGlobalHotKeys\<close>, an omitted map of keys or of handlers reaches the strategy as
  the empty map, the other arguments as they are, and the call is the strategy's call:
  its completion and the strategy's new state are the strategy's, so the manager throws
  nothing that the strategy does not throw.
\<close>

theorem omitted_maps_default_to_empty:
  "addHotKeys E None None opts = on_focusOnly (fo_addHotKeys E [] [] opts)
   \<and> addHotKeys E None (Some hm) opts = on_focusOnly (fo_addHotKeys E [] hm opts)
   \<and> addHotKeys E (Some km) None opts = on_focusOnly (fo_addHotKeys E km [] opts)
   \<and> updateHotKeys E ft ci None None opts = on_focusOnly (fo_updateHotKeys E ft ci [] [] opts)
   \<and> updateHotKeys E ft ci None (Some hm) opts
       = on_focusOnly (fo_updateHotKeys E ft ci [] hm opts)
   \<and> updateHotKeys E ft ci (Some km) None opts
       = on_focusOnly (fo_updateHotKeys E ft ci km [] opts)
   \<and> addGlobalHotKeys E None None opts eo = on_global (gl_addHotKeys E [] [] opts eo)
   \<and> addGlobalHotKeys E None (Some hm) opts eo = on_global (gl_addHotKeys E [] hm opts eo)
   \<and> addGlobalHotKeys E (Some km) None opts eo = on_global (gl_addHotKeys E km [] opts eo)
   \<and> updateGlobalHotKeys E ci None None opts eo
       = on_global (gl_updateHotKeys E ci [] [] opts eo)
   \<and> updateGlobalHotKeys E ci None (Some hm) opts eo
       = on_global (gl_updateHotKeys E ci [] hm opts eo)
   \<and> updateGlobalHotKeys E ci (Some km) None opts eo
       = on_global (gl_updateHotKeys E ci km [] opts eo)
   \<and> fst (addHotKeys E None None opts m)
       = fst (fo_addHotKeys E [] [] opts (focusOnlyEventStrategy m))
   \<and> fst (updateHotKeys E ft ci None None opts m)
       = fst (fo_updateHotKeys E ft ci [] [] opts (focusOnlyEventStrategy m))
   \<and> fst (addGlobalHotKeys E None None opts eo m)
       = fst (gl_addHotKeys E [] [] opts eo m (globalEventStrategy m))
   \<and> fst (updateGlobalHotKeys E ci None None opts eo m)
       = fst (gl_updateHotKeys E ci [] [] opts eo m (globalEventStrategy m))"
  by (simp add: addHotKeys_def updateHotKeys_def addGlobalHotKeys_def updateGlobalHotKeys_def)

text \<open>
  C10. \<^verbatim>\<open>removeHotKeys\<close> returns what the focus-only strategy's \<^verbatim>\<open>removeHotKeys\<close>
  returns for the same focus tree id and component id, and \<^verbatim>\<open>removeGlobalHotKeys\<close>
  what the global strategy's returns for the same component id.
\<close>

theorem remove_returns_strategy_result:
  "fst (removeHotKeys E focusTreeId componentId m)
     = fst (fo_removeHotKeys E focusTreeId componentId (focusOnlyEventStrategy m))
   \<and> fst (removeGlobalHotKeys E componentId m)
     = fst (gl_removeHotKeys E componentId m (globalEventStrategy m))"
  by (simp add: removeHotKeys_def removeGlobalHotKeys_def)

end
